theory Spec2Isabelle
  imports Complex_Main
begin

section \<open>Delivery zones: the data model\<close>

text \<open>
  The program (\<^verbatim>\<open>rte_zones.py\<close>, class \<^verbatim>\<open>RTEZoneChecker\<close>; \<^verbatim>\<open>geo_zones_checker.py\<close>
  holds the same methods under the class name \<^verbatim>\<open>GeoZoneChecker\<close>) keeps a table of
  delivery zones read from a spreadsheet, answers which zones hold a point, groups them by
  restaurant and fills in a city per zone through a reverse geocoder.

  A cell of a table is a Python scalar. \<open>PNone\<close> stands for both \<^verbatim>\<open>None\<close> and the
  missing value NaN (\<^verbatim>\<open>pd.isna\<close> holds of exactly these); a number is a rational, which
  covers Python's \<^verbatim>\<open>int\<close>, the finite floats and the booleans (\<^verbatim>\<open>True == 1\<close>).
\<close>

datatype pyval = PNone | PNum rat | PStr string

datatype error =
  ValueError | ZeroDivisionError | KeyError | AttributeError | TypeError | ReadError

text \<open>
  A \<^verbatim>\<open>DataFrame\<close> as \<^verbatim>\<open>pd.read_excel\<close> and \<^verbatim>\<open>pd.read_csv\<close> return it: the column
  names and the rows, the row at position \<open>i\<close> carrying the index label \<open>i\<close>.
\<close>

record dataframe =
  columns :: "string list"
  rows :: "(string \<rightharpoonup> pyval) list"

text \<open>Reading \<^verbatim>\<open>row[col]\<close>: a column without a value in the row reads as missing.\<close>

definition cell :: "(string \<rightharpoonup> pyval) \<Rightarrow> string \<Rightarrow> pyval" where
  "cell r c = (case r c of None \<Rightarrow> PNone | Some v \<Rightarrow> v)"

text \<open>
  A row of the \<^verbatim>\<open>GeoDataFrame\<close>: the index label it kept from the source table, its
  geometry and its other cells. The geometry type \<open>'g\<close> is the geometry library's.
\<close>

record 'g zone_row =
  idx :: nat
  geometry :: 'g
  cells :: "string \<rightharpoonup> pyval"

record 'g geodataframe =
  gcolumns :: "string list"
  grows :: "'g zone_row list"

text \<open>
  What the reverse geocoder answers to one request: no answer at all (\<^verbatim>\<open>requests.get\<close>
  raises), or a status code with a body. The body is described as far as
  \<^verbatim>\<open>get_city_from_coordinates\<close> looks into it: \<^verbatim>\<open>response.json()\<close> raises
  (\<open>BodyInvalid\<close>), the JSON value is no object (\<open>BodyNotDict\<close>), or it is an object whose
  \<^verbatim>\<open>address\<close> member is absent, is no object, or is an object of scalar fields.
\<close>

datatype address = AddrAbsent | AddrNotDict | AddrDict "string \<rightharpoonup> pyval"

datatype body = BodyInvalid | BodyNotDict | BodyDict address

datatype http_result = TransportFailure | Response int body

text \<open>
  A value of a dictionary that \<^verbatim>\<open>point_in_zones\<close> returns: the row's index label, its
  geometry, or a cell.
\<close>

datatype 'g rval = Index nat | Geom 'g | Cell pyval

text \<open>
  The collaborators the program calls and does not define: the table readers of pandas,
  the WKT parser, the containment predicate and the centroid of the geometry library
  (\<open>None\<close> where the call raises), and the geocoder, whose answer may depend on how many
  requests were made before. The geometry library takes and gives points as (x, y), that
  is (longitude, latitude); a request to the geocoder carries (latitude, longitude).

  pandas types every column, and a write \<^verbatim>\<open>.at[i, col] = v\<close> of a value that the type
  of the column does not take raises \<^verbatim>\<open>TypeError\<close> (a string written to a column of
  floats, which is what a city column without any value is read as). Which values a
  column takes is the library's decision: \<open>can_hold\<close> says it for the city column of the
  zone table as it was read, \<open>takes\<close> for a column that \<^verbatim>\<open>save_data\<close> adds to the table
  it saves, given the values written to that column so far.

  A restaurant identifier that is missing in the table reaches the program as a NaN, a
  float that equals no value, itself included; Python finds it among the keys of a
  dictionary by the identity of the object only. \<open>nan_object\<close> names the object that
  pandas hands out as the missing identifier of a zone: a column of floats gives a new
  object for every row, a column of Python objects the one NaN it stores.
\<close>

record 'g env =
  read_excel :: "string \<Rightarrow> error + dataframe"
  read_csv :: "string \<Rightarrow> error + dataframe"
  loads :: "string \<Rightarrow> 'g option"
  contains :: "'g \<Rightarrow> rat \<times> rat \<Rightarrow> bool"
  centroid :: "'g \<Rightarrow> (rat \<times> rat) option"
  http_get :: "nat \<Rightarrow> rat \<times> rat \<Rightarrow> http_result"
  can_hold :: "pyval \<Rightarrow> bool"
  takes :: "pyval list \<Rightarrow> pyval \<Rightarrow> bool"
  nan_object :: "(string \<rightharpoonup> 'g rval) \<Rightarrow> nat"

text \<open>The object: \<^verbatim>\<open>self.polygons_file\<close>, \<^verbatim>\<open>self.df\<close>, \<^verbatim>\<open>self.gdf\<close>.\<close>

record 'g checker =
  polygons_file :: string
  df :: "dataframe option"
  gdf :: "'g geodataframe option"

section \<open>Loading\<close>

definition endswith :: "string \<Rightarrow> string \<Rightarrow> bool" where
  "endswith s suf = (length suf \<le> length s \<and> drop (length s - length suf) s = suf)"

text \<open>
  One turn of the loop of \<^verbatim>\<open>load_data\<close> on a WKT cell: a missing cell is reported and
  skipped; otherwise \<^verbatim>\<open>loads\<close> is called, and any exception (the parser's, or the type
  error on a cell that is no string) is caught, reported and the row skipped.
\<close>

definition parse_wkt :: "'g env \<Rightarrow> pyval \<Rightarrow> 'g option" where
  "parse_wkt env w = (case w of PNone \<Rightarrow> None | PNum n \<Rightarrow> None | PStr s \<Rightarrow> loads env s)"

text \<open>
  The loop \<^verbatim>\<open>for idx, wkt_string in enumerate(self.df['WKT'])\<close>, from position \<open>i\<close> on:
  \<^verbatim>\<open>valid_indices\<close> and \<^verbatim>\<open>geometries\<close> grow together, so they are one list of pairs.
\<close>

fun scan_wkt :: "'g env \<Rightarrow> nat \<Rightarrow> pyval list \<Rightarrow> (nat \<times> 'g) list" where
  "scan_wkt env i [] = []"
| "scan_wkt env i (w # ws) =
     (case parse_wkt env w of
        None \<Rightarrow> scan_wkt env (Suc i) ws
      | Some g \<Rightarrow> (i, g) # scan_wkt env (Suc i) ws)"

text \<open>
  \<^verbatim>\<open>self.df.iloc[valid_indices]\<close> with the geometries attached: the rows keep their index
  labels. The geometry column is appended, or replaces a column of that name.
\<close>

definition build_gdf :: "dataframe \<Rightarrow> (nat \<times> 'g) list \<Rightarrow> 'g geodataframe" where
  "build_gdf d valid =
     \<lparr>gcolumns = (if ''geometry'' \<in> set (columns d) then columns d
                  else columns d @ [''geometry'']),
      grows = map (\<lambda>(i, g). \<lparr>idx = i, geometry = g, cells = rows d ! i\<rparr>) valid\<rparr>"

text \<open>
  \<^verbatim>\<open>load_data\<close>: the outcome is the exception that left the method, if any, and the
  object as the method left it.
\<close>

definition load_data :: "'g env \<Rightarrow> 'g checker \<Rightarrow> error option \<times> 'g checker" where
  "load_data env self =
     (case (if endswith (polygons_file self) ''.xlsx'' then read_excel env (polygons_file self)
            else if endswith (polygons_file self) ''.csv'' then read_csv env (polygons_file self)
            else Inl ValueError) of
        Inl e \<Rightarrow> (Some e, self)
      | Inr d \<Rightarrow>
          if ''WKT'' \<notin> set (columns d) then (Some ValueError, self\<lparr>df := Some d\<rparr>)
          else (None, self\<lparr>df := Some d,
                  gdf := Some (build_gdf d (scan_wkt env 0 (map (\<lambda>r. cell r ''WKT'') (rows d))))\<rparr>))"

text \<open>The constructor: an exception of \<^verbatim>\<open>load_data\<close> leaves it, and no object is made.\<close>

definition init :: "'g env \<Rightarrow> string \<Rightarrow> error + 'g checker" where
  "init env file =
     (case load_data env \<lparr>polygons_file = file, df = None, gdf = None\<rparr> of
        (Some e, self) \<Rightarrow> Inl e
      | (None, self) \<Rightarrow> Inr self)"

section \<open>Containment query\<close>

text \<open>
  The dictionary built for one matching row: \<^verbatim>\<open>index\<close> and \<^verbatim>\<open>geometry\<close> first, then
  every column but the geometry column, assigned in column order (a later assignment to a
  key replaces the earlier one).
\<close>

definition to_result :: "string list \<Rightarrow> 'g zone_row \<Rightarrow> (string \<rightharpoonup> 'g rval)" where
  "to_result cols r =
     fold (\<lambda>col res. if col \<noteq> ''geometry'' then res(col \<mapsto> Cell (cell (cells r) col)) else res)
       cols [''index'' \<mapsto> Index (idx r), ''geometry'' \<mapsto> Geom (geometry r)]"

text \<open>
  The rows selected by the boolean mask \<^verbatim>\<open>self.gdf.geometry.contains(point)\<close>, the
  point being built as \<^verbatim>\<open>Point(lon, lat)\<close>.
\<close>

definition intersecting :: "'g env \<Rightarrow> 'g geodataframe \<Rightarrow> rat \<Rightarrow> rat \<Rightarrow> 'g zone_row list" where
  "intersecting env g lat lon = filter (\<lambda>r. contains env (geometry r) (lon, lat)) (grows g)"

text \<open>
  \<^verbatim>\<open>point_in_zones\<close>: the guard on \<^verbatim>\<open>self.gdf\<close>, then the loop that appends one
  dictionary per selected row.
\<close>

definition point_in_zones ::
  "'g env \<Rightarrow> 'g checker \<Rightarrow> rat \<Rightarrow> rat \<Rightarrow> error + (string \<rightharpoonup> 'g rval) list" where
  "point_in_zones env self lat lon =
     (case gdf self of
        None \<Rightarrow> Inl ValueError
      | Some g \<Rightarrow>
          Inr (foldl (\<lambda>results r. results @ [to_result (gcolumns g) r]) []
                 (intersecting env g lat lon)))"

definition is_point_in_any_zone :: "'g env \<Rightarrow> 'g checker \<Rightarrow> rat \<Rightarrow> rat \<Rightarrow> error + bool" where
  "is_point_in_any_zone env self lat lon =
     (case point_in_zones env self lat lon of
        Inl e \<Rightarrow> Inl e
      | Inr results \<Rightarrow> Inr (length results > 0))"

section \<open>Restaurants of a point\<close>

text \<open>
  The column names the grouping reads, as the UTF-8 bytes of the source's literals
  (\<^verbatim>\<open>ID\<close> followed by a Cyrillic word for the restaurant identifier, and so on),
  and the default values of its \<^verbatim>\<open>zone.get\<close> calls.
\<close>

definition col_restaurant_id :: string where
  "col_restaurant_id = ''ID '' @ [CHR 0xD1, CHR 0x80, CHR 0xD0, CHR 0xB5, CHR 0xD1, CHR 0x81,
     CHR 0xD1, CHR 0x82, CHR 0xD0, CHR 0xB0]"

definition col_partner :: string where
  "col_partner = [CHR 0xD0, CHR 0x9F, CHR 0xD0, CHR 0xB0, CHR 0xD1, CHR 0x80, CHR 0xD1, CHR 0x82,
     CHR 0xD0, CHR 0xBD, CHR 0xD0, CHR 0xB5, CHR 0xD1, CHR 0x80]"

definition col_internal_id :: string where
  "col_internal_id = ''ID '' @ [CHR 0xD0, CHR 0xB2, CHR 0xD0, CHR 0xBD, CHR 0xD1, CHR 0x83,
     CHR 0xD1, CHR 0x82, CHR 0xD1, CHR 0x80, CHR 0xD0, CHR 0xB5, CHR 0xD0, CHR 0xBD, CHR 0xD0,
     CHR 0xBD, CHR 0xD0, CHR 0xB8, CHR 0xD0, CHR 0xB9]"

definition unknown_partner :: string where
  "unknown_partner = [CHR 0xD0, CHR 0x9D, CHR 0xD0, CHR 0xB5, CHR 0xD0, CHR 0xB8, CHR 0xD0,
     CHR 0xB7, CHR 0xD0, CHR 0xB2, CHR 0xD0, CHR 0xB5, CHR 0xD1, CHR 0x81, CHR 0xD1, CHR 0x82,
     CHR 0xD0, CHR 0xBD, CHR 0xD0, CHR 0xBE]"

definition unknown_zone :: string where
  "unknown_zone = [CHR 0xD0, CHR 0x9D, CHR 0xD0, CHR 0xB5, CHR 0xD0, CHR 0xB8, CHR 0xD0,
     CHR 0xB7, CHR 0xD0, CHR 0xB2, CHR 0xD0, CHR 0xB5, CHR 0xD1, CHR 0x81, CHR 0xD1, CHR 0x82,
     CHR 0xD0, CHR 0xBD, CHR 0xD0, CHR 0xB0, CHR 0xD1, CHR 0x8F, CHR 0x20, CHR 0xD0, CHR 0xB7,
     CHR 0xD0, CHR 0xBE, CHR 0xD0, CHR 0xBD, CHR 0xD0, CHR 0xB0]"

text \<open>\<^verbatim>\<open>d.get(key, default)\<close> on a dictionary.\<close>

definition dict_get :: "('k \<rightharpoonup> 'v) \<Rightarrow> 'k \<Rightarrow> 'v \<Rightarrow> 'v" where
  "dict_get d k dflt = (case d k of None \<Rightarrow> dflt | Some v \<Rightarrow> v)"

record 'g zone_entry =
  entry_name :: "'g rval"
  entry_internal_id :: "'g rval"
  entry_index :: "'g rval"

record 'g restaurant =
  restaurant_id :: "'g rval"
  partner :: "'g rval"
  zones :: "'g zone_entry list"

definition zone_restaurant_id :: "(string \<rightharpoonup> 'g rval) \<Rightarrow> 'g rval" where
  "zone_restaurant_id zone = dict_get zone col_restaurant_id (Cell (PStr ''unknown''))"

definition zone_partner :: "(string \<rightharpoonup> 'g rval) \<Rightarrow> 'g rval" where
  "zone_partner zone = dict_get zone col_partner (Cell (PStr unknown_partner))"

definition zone_name :: "(string \<rightharpoonup> 'g rval) \<Rightarrow> 'g rval" where
  "zone_name zone = dict_get zone ''name'' (Cell (PStr unknown_zone))"

text \<open>
  The entry a zone adds to its group; \<^verbatim>\<open>zone['index']\<close> raises \<^verbatim>\<open>KeyError\<close> on a
  dictionary without that key.
\<close>

definition zone_entry_of :: "(string \<rightharpoonup> 'g rval) \<Rightarrow> error + 'g zone_entry" where
  "zone_entry_of zone =
     (case zone ''index'' of
        None \<Rightarrow> Inl KeyError
      | Some i \<Rightarrow>
          Inr \<lparr>entry_name = zone_name zone,
               entry_internal_id = dict_get zone col_internal_id (Cell (PStr [])),
               entry_index = i\<rparr>)"

text \<open>
  A key of the dictionary \<^verbatim>\<open>restaurants\<close> as Python compares keys: a value by
  equality, a NaN by the identity of the object. The key of a zone is its restaurant
  identifier; a missing identifier is a NaN when it comes from a table that was read
  (\<^verbatim>\<open>None\<close>, were it to occur, is one object for all zones).
\<close>

datatype 'g key = Value "'g rval" | Nan nat

definition key_of :: "'g env \<Rightarrow> (string \<rightharpoonup> 'g rval) \<Rightarrow> 'g key" where
  "key_of env zone =
     (if zone_restaurant_id zone = Cell PNone then Nan (nan_object env zone)
      else Value (zone_restaurant_id zone))"

text \<open>
  One turn of the grouping loop. The dictionary keeps its keys in insertion order, so it
  is an association list.
\<close>

definition add_zone ::
  "'g env \<Rightarrow> ('g key \<times> 'g restaurant) list \<Rightarrow> (string \<rightharpoonup> 'g rval)
     \<Rightarrow> error + ('g key \<times> 'g restaurant) list" where
  "add_zone env restaurants zone =
     (let rid = zone_restaurant_id zone;
          k = key_of env zone;
          restaurants1 =
            (if k \<notin> set (map fst restaurants)
             then restaurants @
                    [(k, \<lparr>restaurant_id = rid, partner = zone_partner zone, zones = []\<rparr>)]
             else restaurants)
      in case zone_entry_of zone of
           Inl e \<Rightarrow> Inl e
         | Inr entry \<Rightarrow>
             Inr (map (\<lambda>(k', r). if k' = k then (k', r\<lparr>zones := zones r @ [entry]\<rparr>)
                                  else (k', r))
                    restaurants1))"

fun group_loop ::
  "'g env \<Rightarrow> ('g key \<times> 'g restaurant) list \<Rightarrow> (string \<rightharpoonup> 'g rval) list
     \<Rightarrow> error + ('g key \<times> 'g restaurant) list" where
  "group_loop env restaurants [] = Inr restaurants"
| "group_loop env restaurants (zone # rest) =
     (case add_zone env restaurants zone of
        Inl e \<Rightarrow> Inl e
      | Inr restaurants' \<Rightarrow> group_loop env restaurants' rest)"

text \<open>The grouping of a list of zones: \<^verbatim>\<open>list(restaurants.values())\<close>.\<close>

definition group_zones ::
  "'g env \<Rightarrow> (string \<rightharpoonup> 'g rval) list \<Rightarrow> error + 'g restaurant list" where
  "group_zones env zs =
     (case group_loop env [] zs of Inl e \<Rightarrow> Inl e | Inr rs \<Rightarrow> Inr (map snd rs))"

definition get_restaurants_for_point ::
  "'g env \<Rightarrow> 'g checker \<Rightarrow> rat \<Rightarrow> rat \<Rightarrow> error + 'g restaurant list" where
  "get_restaurants_for_point env self lat lon =
     (case point_in_zones env self lat lon of
        Inl e \<Rightarrow> Inl e
      | Inr zs \<Rightarrow> group_zones env zs)"

text \<open>The values of a list in the order in which they are first seen.\<close>

definition first_seen :: "'a list \<Rightarrow> 'a list" where
  "first_seen xs = foldl (\<lambda>seen x. if x \<in> set seen then seen else seen @ [x]) [] xs"



section \<open>Reverse geocoding\<close>

text \<open>Python's truth value of a scalar, and \<^verbatim>\<open>a or b\<close>.\<close>

definition truthy :: "pyval \<Rightarrow> bool" where
  "truthy v = (case v of PNone \<Rightarrow> False | PNum n \<Rightarrow> n \<noteq> 0 | PStr s \<Rightarrow> s \<noteq> [])"

definition py_or :: "pyval \<Rightarrow> pyval \<Rightarrow> pyval" where
  "py_or a b = (if truthy a then a else b)"

text \<open>
  The chain \<^verbatim>\<open>address.get('city') or address.get('town') or ...\<close>; \<^verbatim>\<open>or\<close> associates
  to the left, and \<^verbatim>\<open>address.get\<close> gives \<^verbatim>\<open>None\<close> for an absent key.
\<close>

definition resolve_city :: "(string \<rightharpoonup> pyval) \<Rightarrow> pyval" where
  "resolve_city a =
     py_or (py_or (py_or (py_or (dict_get a ''city'' PNone) (dict_get a ''town'' PNone))
                     (dict_get a ''village'' PNone))
              (dict_get a ''municipality'' PNone))
       (dict_get a ''county'' PNone)"

text \<open>
  What \<^verbatim>\<open>get_city_from_coordinates\<close> makes of an answer: every exception (the
  transport's, the JSON decoder's, the attribute error of \<^verbatim>\<open>.get\<close> on a value that is
  no dictionary) is caught and gives \<^verbatim>\<open>None\<close>, as does a status other than 200.
\<close>

definition city_of_result :: "http_result \<Rightarrow> pyval" where
  "city_of_result res =
     (case res of
        TransportFailure \<Rightarrow> PNone
      | Response status b \<Rightarrow>
          if status = 200 then
            (case b of
               BodyInvalid \<Rightarrow> PNone
             | BodyNotDict \<Rightarrow> PNone
             | BodyDict AddrAbsent \<Rightarrow> resolve_city Map.empty
             | BodyDict AddrNotDict \<Rightarrow> PNone
             | BodyDict (AddrDict a) \<Rightarrow> resolve_city a)
          else PNone)"

text \<open>
  \<^verbatim>\<open>get_city_from_coordinates\<close> when \<open>n\<close> requests were made before: one request, with
  the latitude and the longitude as parameters.
\<close>

definition get_city_from_coordinates :: "'g env \<Rightarrow> nat \<Rightarrow> rat \<Rightarrow> rat \<Rightarrow> pyval" where
  "get_city_from_coordinates env n lat lon = city_of_result (http_get env n (lat, lon))"

text \<open>
  Two readings of "the city of an address", for comparison with \<open>resolve_city\<close>: the
  value of the first field that is present, and the first value that Python takes for
  true (the last value when none is).
\<close>

definition city_fields :: "string list" where
  "city_fields = [''city'', ''town'', ''village'', ''municipality'', ''county'']"

definition first_present :: "(string \<rightharpoonup> pyval) \<Rightarrow> string list \<Rightarrow> pyval" where
  "first_present a ks = (case List.map_filter a ks of [] \<Rightarrow> PNone | v # vs \<Rightarrow> v)"

definition first_truthy :: "pyval list \<Rightarrow> pyval" where
  "first_truthy vs = (case filter truthy vs of [] \<Rightarrow> last vs | v # ws \<Rightarrow> v)"

section \<open>Enrichment and persistence\<close>

text \<open>
  What a run does to the world, in order: a request to the geocoder (latitude,
  longitude), the progress line printed after a record was processed (its running number
  and the city), a table written to a file by \<^verbatim>\<open>save_data\<close>, and the line printed after
  an intermediate save. The pause \<^verbatim>\<open>time.sleep\<close> after an answer is not part of the
  trace.
\<close>

datatype event = Request rat rat | Progress nat pyval | Saved string dataframe | Checkpoint

definition n_requests :: "event list \<Rightarrow> nat" where
  "n_requests tr = length (filter (\<lambda>e. case e of Request lat lon \<Rightarrow> True | _ \<Rightarrow> False) tr)"

text \<open>
  \<^verbatim>\<open>get_city_from_geometry\<close>: the city and the requests made for it. An exception of
  the centroid is caught and gives \<^verbatim>\<open>None\<close> without a request.
\<close>

definition get_city_from_geometry :: "'g env \<Rightarrow> nat \<Rightarrow> 'g \<Rightarrow> pyval \<times> event list" where
  "get_city_from_geometry env n g =
     (case centroid env g of
        None \<Rightarrow> (PNone, [])
      | Some (x, y) \<Rightarrow> (get_city_from_coordinates env n y x, [Request y x]))"

text \<open>\<^verbatim>\<open>save_df.at[i, col] = v\<close>: a column that is not there yet is appended.\<close>

definition set_at :: "dataframe \<Rightarrow> nat \<Rightarrow> string \<Rightarrow> pyval \<Rightarrow> dataframe" where
  "set_at d i col v =
     \<lparr>columns = (if col \<in> set (columns d) then columns d else columns d @ [col]),
      rows = (rows d)[i := (rows d ! i)(col \<mapsto> v)]\<rparr>"

text \<open>
  The inner loop of \<^verbatim>\<open>save_data\<close> for one column, over the index labels \<open>is\<close> of
  the table to save: every label that is also a label of the zone table takes that
  zone's value. \<open>written\<close> lists the values the column was given so far; a value the
  column does not take ends the loop with the exception.
\<close>

fun overlay_rows ::
  "'g env \<Rightarrow> 'g geodataframe \<Rightarrow> string \<Rightarrow> nat list \<Rightarrow> pyval list \<Rightarrow> dataframe
     \<Rightarrow> error + dataframe" where
  "overlay_rows env g col [] written save_df = Inr save_df"
| "overlay_rows env g col (i # is) written save_df =
     (case find (\<lambda>r. idx r = i) (grows g) of
        None \<Rightarrow> overlay_rows env g col is written save_df
      | Some r \<Rightarrow>
          if takes env written (cell (cells r) col)
          then overlay_rows env g col is (written @ [cell (cells r) col])
                 (set_at save_df i col (cell (cells r) col))
          else Inl TypeError)"

definition overlay_column ::
  "'g env \<Rightarrow> 'g geodataframe \<Rightarrow> string \<Rightarrow> dataframe \<Rightarrow> error + dataframe" where
  "overlay_column env g col save_df =
     overlay_rows env g col [0..<length (rows save_df)] [] save_df"

text \<open>The outer loop, over the columns of the zone table.\<close>

fun save_columns ::
  "'g env \<Rightarrow> 'g geodataframe \<Rightarrow> string list \<Rightarrow> dataframe \<Rightarrow> error + dataframe" where
  "save_columns env g [] save_df = Inr save_df"
| "save_columns env g (col # cols) save_df =
     (if col \<notin> set (columns save_df) \<and> col \<noteq> ''geometry'' then
        (case overlay_column env g col save_df of
           Inl e \<Rightarrow> Inl e
         | Inr save_df' \<Rightarrow> save_columns env g cols save_df')
      else save_columns env g cols save_df)"

definition save_df_of :: "'g env \<Rightarrow> dataframe \<Rightarrow> 'g geodataframe \<Rightarrow> error + dataframe" where
  "save_df_of env d g = save_columns env g (gcolumns g) d"

text \<open>
  \<^verbatim>\<open>save_data\<close>: the table it writes to the file, or the exception. The extension is
  looked at after the table is built.
\<close>

definition save_data :: "'g env \<Rightarrow> 'g checker \<Rightarrow> string \<Rightarrow> error + dataframe" where
  "save_data env self filename =
     (case gdf self of
        None \<Rightarrow> Inl ValueError
      | Some g \<Rightarrow>
          (case df self of
             None \<Rightarrow> Inl AttributeError
           | Some d \<Rightarrow>
               (case save_df_of env d g of
                  Inl e \<Rightarrow> Inl e
                | Inr save_df \<Rightarrow>
                    if endswith filename ''.xlsx'' then Inr save_df
                    else if endswith filename ''.csv'' then Inr save_df
                    else Inl ValueError)))"

text \<open>The test \<^verbatim>\<open>pd.isna(row['city']) or row['city'] == ''\<close>.\<close>

definition needs_city :: "'g zone_row \<Rightarrow> bool" where
  "needs_city r = (cell (cells r) ''city'' = PNone \<or> cell (cells r) ''city'' = PStr [])"

text \<open>The truth value of \<^verbatim>\<open>save_file\<close>: \<^verbatim>\<open>None\<close> and the empty string are false.\<close>

definition given_file :: "string option \<Rightarrow> string option" where
  "given_file save_file =
     (case save_file of None \<Rightarrow> None | Some f \<Rightarrow> if f = [] then None else Some f)"

text \<open>\<^verbatim>\<open>self.gdf['city'] = None\<close> and \<^verbatim>\<open>self.gdf.at[i, col] = v\<close>.\<close>

definition add_column :: "'g geodataframe \<Rightarrow> string \<Rightarrow> pyval \<Rightarrow> 'g geodataframe" where
  "add_column g col v =
     \<lparr>gcolumns = gcolumns g @ [col],
      grows = map (\<lambda>r. r\<lparr>cells := (cells r)(col \<mapsto> v)\<rparr>) (grows g)\<rparr>"

definition gdf_set_at :: "'g geodataframe \<Rightarrow> nat \<Rightarrow> string \<Rightarrow> pyval \<Rightarrow> 'g geodataframe" where
  "gdf_set_at g i col v =
     g\<lparr>grows := map (\<lambda>r. if idx r = i then r\<lparr>cells := (cells r)(col \<mapsto> v)\<rparr> else r) (grows g)\<rparr>"

text \<open>The state of a run of \<^verbatim>\<open>add_city_column\<close>: the object, the counter, the trace.\<close>

record 'g run =
  obj :: "'g checker"
  processed :: nat
  trace :: "event list"

text \<open>
  The body of the loop for a row that needs a city. \<open>fresh\<close> says that this call of
  \<^verbatim>\<open>add_city_column\<close> added the city column itself: such a column holds Python objects
  and takes every value, while a column that was read takes what \<open>can_hold\<close> allows, and
  the write of another value leaves the loop with \<^verbatim>\<open>TypeError\<close> before anything is
  counted or printed. The remainder \<^verbatim>\<open>processed % batch_size\<close> is computed before
  \<^verbatim>\<open>save_file\<close> is looked at, so a batch size of zero raises whether or not a file is
  given.
\<close>

definition enrich_row ::
  "'g env \<Rightarrow> string option \<Rightarrow> int \<Rightarrow> bool \<Rightarrow> 'g zone_row \<Rightarrow> 'g run
     \<Rightarrow> error option \<times> 'g run" where
  "enrich_row env save_file batch_size fresh row st =
     (case gdf (obj st) of
        None \<Rightarrow> (Some AttributeError, st)
      | Some g \<Rightarrow>
          (let (city, reqs) = get_city_from_geometry env (n_requests (trace st)) (geometry row)
           in if \<not> fresh \<and> \<not> can_hold env city
              then (Some TypeError, st\<lparr>trace := trace st @ reqs\<rparr>)
              else
                (let p = processed st + 1;
                     st1 = \<lparr>obj = (obj st)\<lparr>gdf := Some (gdf_set_at g (idx row) ''city'' city)\<rparr>,
                            processed = p,
                            trace = trace st @ reqs @ [Progress p city]\<rparr>
                 in if batch_size = 0 then (Some ZeroDivisionError, st1)
                    else if int p mod batch_size = 0 then
                      (case given_file save_file of
                         None \<Rightarrow> (None, st1)
                       | Some f \<Rightarrow>
                           (case save_data env (obj st1) f of
                              Inl e \<Rightarrow> (Some e, st1)
                            | Inr t \<Rightarrow>
                                (None, st1\<lparr>trace := trace st1 @ [Saved f t, Checkpoint]\<rparr>)))
                    else (None, st1))))"

text \<open>
  The loop \<^verbatim>\<open>for idx, row in self.gdf.iterrows()\<close> over the rows as they were when the
  loop began; an exception ends it.
\<close>

fun enrich_loop ::
  "'g env \<Rightarrow> string option \<Rightarrow> int \<Rightarrow> bool \<Rightarrow> 'g zone_row list \<Rightarrow> 'g run
     \<Rightarrow> error option \<times> 'g run" where
  "enrich_loop env save_file batch_size fresh [] st = (None, st)"
| "enrich_loop env save_file batch_size fresh (row # rest) st =
     (if needs_city row then
        (case enrich_row env save_file batch_size fresh row st of
           (Some e, st') \<Rightarrow> (Some e, st')
         | (None, st') \<Rightarrow> enrich_loop env save_file batch_size fresh rest st')
      else enrich_loop env save_file batch_size fresh rest st)"

text \<open>
  \<^verbatim>\<open>add_city_column\<close>, started with the trace \<open>tr\<close> of what happened before: the
  exception that left it, if any, the object and the trace as it left them.
\<close>

definition add_city_column ::
  "'g env \<Rightarrow> string option \<Rightarrow> int \<Rightarrow> 'g checker \<Rightarrow> event list
     \<Rightarrow> error option \<times> 'g checker \<times> event list" where
  "add_city_column env save_file batch_size self tr =
     (case gdf self of
        None \<Rightarrow> (Some ValueError, self, tr)
      | Some g \<Rightarrow>
          (let fresh = (''city'' \<notin> set (gcolumns g));
               g1 = (if fresh then add_column g ''city'' PNone else g);
               (err, st) = enrich_loop env save_file batch_size fresh (grows g1)
                             \<lparr>obj = self\<lparr>gdf := Some g1\<rparr>, processed = 0, trace = tr\<rparr>
           in case err of
                Some e \<Rightarrow> (Some e, obj st, trace st)
              | None \<Rightarrow>
                  (case given_file save_file of
                     None \<Rightarrow> (None, obj st, trace st)
                   | Some f \<Rightarrow>
                       (case save_data env (obj st) f of
                          Inl e \<Rightarrow> (Some e, obj st, trace st)
                        | Inr t \<Rightarrow> (None, obj st, trace st @ [Saved f t])))))"




datatype mark = Record_done nat | File_written string | Checkpoint_done

definition mark_of :: "event \<Rightarrow> mark option" where
  "mark_of e =
     (case e of
        Request lat lon \<Rightarrow> None
      | Progress k c \<Rightarrow> Some (Record_done k)
      | Saved f t \<Rightarrow> Some (File_written f)
      | Checkpoint \<Rightarrow> Some Checkpoint_done)"

definition marks :: "event list \<Rightarrow> mark list" where
  "marks tr = List.map_filter mark_of tr"





section \<open>Statistics\<close>

text \<open>
  A column of the zone table, and the pandas reductions \<^verbatim>\<open>get_stats\<close> uses. Missing
  values are not counted. \<^verbatim>\<open>value_counts\<close> lists each value with the number of its
  occurrences, the largest count first; values of equal count are kept here in the order
  in which they are first seen.
\<close>

definition column_values :: "'g geodataframe \<Rightarrow> string \<Rightarrow> pyval list" where
  "column_values g col = map (\<lambda>r. cell (cells r) col) (grows g)"

definition nonnull :: "pyval list \<Rightarrow> pyval list" where
  "nonnull xs = filter (\<lambda>v. v \<noteq> PNone) xs"

definition nunique :: "pyval list \<Rightarrow> nat" where
  "nunique xs = length (first_seen (nonnull xs))"

definition value_counts :: "pyval list \<Rightarrow> (pyval \<times> nat) list" where
  "value_counts xs =
     sort_key (\<lambda>p. - int (snd p)) (map (\<lambda>v. (v, count_list xs v)) (first_seen (nonnull xs)))"

record stats =
  total_zones :: nat
  partners :: nat
  restaurants :: nat
  partner_distribution :: "(pyval \<times> nat) list option"
  cities :: "nat option"
  city_distribution :: "(pyval \<times> nat) list option"

text \<open>\<^verbatim>\<open>get_stats\<close>; \<open>None\<close> is the empty dictionary of an object without a table.\<close>

definition get_stats :: "'g checker \<Rightarrow> stats option" where
  "get_stats self =
     (case gdf self of
        None \<Rightarrow> None
      | Some g \<Rightarrow>
          Some \<lparr>total_zones = length (grows g),
                partners = (if col_partner \<in> set (gcolumns g)
                            then nunique (column_values g col_partner) else 0),
                restaurants = (if col_restaurant_id \<in> set (gcolumns g)
                               then nunique (column_values g col_restaurant_id) else 0),
                partner_distribution =
                  (if col_partner \<in> set (gcolumns g)
                   then Some (value_counts (column_values g col_partner)) else None),
                cities = (if ''city'' \<in> set (gcolumns g)
                          then Some (nunique (column_values g ''city'')) else None),
                city_distribution =
                  (if ''city'' \<in> set (gcolumns g)
                   then Some (take 10 (value_counts (column_values g ''city''))) else None)\<rparr>)"

section \<open>The containment predicate of the geometry library\<close>

text \<open>
  The program leaves the containment test to the geometry library: \<^verbatim>\<open>contains\<close> of
  Shapely, computed by GEOS. For a polygon and a point the library locates the point in
  the interior, on the boundary or in the exterior of the polygon, and \<^verbatim>\<open>contains\<close> holds
  when the point is in the interior. This section models that test for a polygon given by
  its rings (the shell, then the holes; a ring lists its vertices and ends with its first
  vertex, as in WKT), over exact coordinates: the library's orientation test is exact on
  the coordinates it is given.
\<close>

type_synonym point = "rat \<times> rat"

record polygon =
  shell :: "point list"
  holes :: "point list list"

datatype location = Interior | Boundary | Exterior

text \<open>
  The sign of the turn from \<open>p1\<close> to \<open>p2\<close> to \<open>q\<close>: 1 when \<open>q\<close> is to the left,
  -1 when it is to the right, 0 when the three are collinear.
\<close>

definition orientation_index :: "point \<Rightarrow> point \<Rightarrow> point \<Rightarrow> rat" where
  "orientation_index p1 p2 q =
     sgn ((fst p2 - fst p1) * (snd q - snd p1) - (snd p2 - snd p1) * (fst q - fst p1))"

text \<open>
  The ray crossing counter: how many segments cross the horizontal ray from the point to
  the right, and whether the point was found on a segment.
\<close>

record ray_counter =
  crossing_count :: nat
  is_point_on_segment :: bool

definition count_segment :: "point \<Rightarrow> point \<Rightarrow> point \<Rightarrow> ray_counter \<Rightarrow> ray_counter" where
  "count_segment q p1 p2 c =
     (if fst p1 < fst q \<and> fst p2 < fst q then c
      else if fst q = fst p2 \<and> snd q = snd p2 then c\<lparr>is_point_on_segment := True\<rparr>
      else if snd p1 = snd q \<and> snd p2 = snd q then
        (if min (fst p1) (fst p2) \<le> fst q \<and> fst q \<le> max (fst p1) (fst p2)
         then c\<lparr>is_point_on_segment := True\<rparr> else c)
      else if (snd p1 > snd q \<and> snd p2 \<le> snd q) \<or> (snd p2 > snd q \<and> snd p1 \<le> snd q) then
        (let s = orientation_index p1 p2 q in
         if s = 0 then c\<lparr>is_point_on_segment := True\<rparr>
         else if (if snd p2 < snd p1 then - s else s) = 1
              then c\<lparr>crossing_count := crossing_count c + 1\<rparr>
              else c)
      else c)"

text \<open>The segments of a ring in order; the count stops on a segment that holds the point.\<close>

fun count_ring :: "point \<Rightarrow> point list \<Rightarrow> ray_counter \<Rightarrow> ray_counter" where
  "count_ring q (p1 # p2 # ps) c =
     (let c' = count_segment q p1 p2 c
      in if is_point_on_segment c' then c' else count_ring q (p2 # ps) c')"
| "count_ring q ps c = c"

definition get_location :: "ray_counter \<Rightarrow> location" where
  "get_location c =
     (if is_point_on_segment c then Boundary
      else if odd (crossing_count c) then Interior else Exterior)"

definition locate_point_in_ring :: "point \<Rightarrow> point list \<Rightarrow> location" where
  "locate_point_in_ring q ring =
     get_location (count_ring q ring \<lparr>crossing_count = 0, is_point_on_segment = False\<rparr>)"

text \<open>
  The holes of a polygon, for a point in the interior of the shell: on a hole's ring the
  point is on the boundary, inside a hole it is outside the polygon.
\<close>

fun locate_in_holes :: "point \<Rightarrow> point list list \<Rightarrow> location" where
  "locate_in_holes q [] = Interior"
| "locate_in_holes q (h # hs) =
     (case locate_point_in_ring q h of
        Boundary \<Rightarrow> Boundary
      | Interior \<Rightarrow> Exterior
      | Exterior \<Rightarrow> locate_in_holes q hs)"

definition locate_point_in_polygon :: "point \<Rightarrow> polygon \<Rightarrow> location" where
  "locate_point_in_polygon q poly =
     (if shell poly = [] then Exterior
      else (case locate_point_in_ring q (shell poly) of
              Interior \<Rightarrow> locate_in_holes q (holes poly)
            | Boundary \<Rightarrow> Boundary
            | Exterior \<Rightarrow> Exterior))"

definition polygon_contains :: "polygon \<Rightarrow> point \<Rightarrow> bool" where
  "polygon_contains poly q = (locate_point_in_polygon q poly = Interior)"

text \<open>
  Geometry, for stating where a point lies: the closed segment from \<open>a\<close> to \<open>b\<close>, the
  edges of a ring and of a polygon, and a ring that ends where it starts.
\<close>

definition on_segment :: "point \<Rightarrow> point \<Rightarrow> point \<Rightarrow> bool" where
  "on_segment a b q =
     ((fst b - fst a) * (snd q - snd a) = (snd b - snd a) * (fst q - fst a) \<and>
      min (fst a) (fst b) \<le> fst q \<and> fst q \<le> max (fst a) (fst b) \<and>
      min (snd a) (snd b) \<le> snd q \<and> snd q \<le> max (snd a) (snd b))"

fun on_ring_edge :: "point \<Rightarrow> point list \<Rightarrow> bool" where
  "on_ring_edge q (a # b # ps) = (on_segment a b q \<or> on_ring_edge q (b # ps))"
| "on_ring_edge q ps = False"

definition on_polygon_edge :: "point \<Rightarrow> polygon \<Rightarrow> bool" where
  "on_polygon_edge q poly =
     (on_ring_edge q (shell poly) \<or> list_ex (on_ring_edge q) (holes poly))"

definition closed_ring :: "point list \<Rightarrow> bool" where
  "closed_ring ring = (ring \<noteq> [] \<and> last ring = hd ring)"

definition closed_polygon :: "polygon \<Rightarrow> bool" where
  "closed_polygon poly = (closed_ring (shell poly) \<and> list_all closed_ring (holes poly))"

text \<open>Whether one segment alone makes the counter report the point on it.\<close>

definition touches :: "point \<Rightarrow> point \<Rightarrow> point \<Rightarrow> bool" where
  "touches q p1 p2 =
     is_point_on_segment
       (count_segment q p1 p2 \<lparr>crossing_count = 0, is_point_on_segment = False\<rparr>)"

section \<open>Example data\<close>

text \<open>
  Four sources: one with two rows, a square of side 2 and a row without boundary text;
  one whose only row has no boundary text; one with two squares; and one with two squares
  and a city column without any value. The example library parses the one WKT text of
  these sources, tests containment as the geometry library does, and puts every centroid
  at (1, 1); the example geocoder answers every request with the town Springfield, the
  columns of the example tables take every value, and a missing restaurant identifier is
  an object of its own for every row. Further stores, of zones with
  restaurants and of zones with cities, are given as the zone tables they load into.
\<close>

definition ex_wkt :: string where
  "ex_wkt = ''POLYGON((0 0,0 2,2 2,2 0,0 0))''"

definition ex_square :: polygon where
  "ex_square = \<lparr>shell = [(0, 0), (0, 2), (2, 2), (2, 0), (0, 0)], holes = []\<rparr>"

definition ex_table :: dataframe where
  "ex_table =
     \<lparr>columns = [''WKT'', ''partner'', ''id''],
      rows = [[''WKT'' \<mapsto> PStr ex_wkt, ''partner'' \<mapsto> PStr ''A'', ''id'' \<mapsto> PNum 1],
              [''WKT'' \<mapsto> PNone, ''partner'' \<mapsto> PStr ''B'', ''id'' \<mapsto> PNum 2]]\<rparr>"

definition empty_table :: dataframe where
  "empty_table =
     \<lparr>columns = [''WKT'', ''partner''],
      rows = [[''WKT'' \<mapsto> PNone, ''partner'' \<mapsto> PStr ''B'']]\<rparr>"

definition two_table :: dataframe where
  "two_table =
     \<lparr>columns = [''WKT'', ''partner''],
      rows = [[''WKT'' \<mapsto> PStr ex_wkt, ''partner'' \<mapsto> PStr ''A''],
              [''WKT'' \<mapsto> PStr ex_wkt, ''partner'' \<mapsto> PStr ''B'']]\<rparr>"

definition blank_table :: dataframe where
  "blank_table =
     \<lparr>columns = [''WKT'', ''partner'', ''city''],
      rows = [[''WKT'' \<mapsto> PStr ex_wkt, ''partner'' \<mapsto> PStr ''A'', ''city'' \<mapsto> PNone],
              [''WKT'' \<mapsto> PStr ex_wkt, ''partner'' \<mapsto> PStr ''B'', ''city'' \<mapsto> PNone]]\<rparr>"

definition ex_env :: "polygon env" where
  "ex_env =
     \<lparr>read_excel = (\<lambda>f. Inl ReadError),
      read_csv = (\<lambda>f. if f = ''polygons.csv'' then Inr ex_table
                       else if f = ''empty.csv'' then Inr empty_table
                       else if f = ''two.csv'' then Inr two_table
                       else if f = ''blank.csv'' then Inr blank_table
                       else Inl ReadError),
      loads = (\<lambda>s. if s = ex_wkt then Some ex_square else None),
      contains = polygon_contains,
      centroid = (\<lambda>g. Some (1, 1)),
      http_get = (\<lambda>n q. Response 200 (BodyDict (AddrDict [''town'' \<mapsto> PStr ''Springfield'']))),
      can_hold = (\<lambda>v. True),
      takes = (\<lambda>written v. True),
      nan_object = (\<lambda>zone. case zone ''index'' of Some (Index i) \<Rightarrow> i | _ \<Rightarrow> 0)\<rparr>"

text \<open>The same, with a geocoder that cannot be reached.\<close>

definition offline_env :: "polygon env" where
  "offline_env = ex_env\<lparr>http_get := (\<lambda>n q. TransportFailure)\<rparr>"

text \<open>
  The same as the first, with a city column of floats: it takes numbers and missing
  values, and no string.
\<close>

definition float_env :: "polygon env" where
  "float_env =
     ex_env\<lparr>can_hold := (\<lambda>v. case v of PStr s \<Rightarrow> False | PNum n \<Rightarrow> True | PNone \<Rightarrow> True)\<rparr>"

text \<open>The zone tables and the objects the constructor makes of the three sources.\<close>

definition ex_gdf :: "polygon geodataframe" where
  "ex_gdf =
     \<lparr>gcolumns = [''WKT'', ''partner'', ''id'', ''geometry''],
      grows = [\<lparr>idx = 0, geometry = ex_square,
                cells = [''WKT'' \<mapsto> PStr ex_wkt, ''partner'' \<mapsto> PStr ''A'',
                         ''id'' \<mapsto> PNum 1]\<rparr>]\<rparr>"

definition ex_checker :: "polygon checker" where
  "ex_checker = \<lparr>polygons_file = ''polygons.csv'', df = Some ex_table, gdf = Some ex_gdf\<rparr>"

definition empty_gdf :: "polygon geodataframe" where
  "empty_gdf = \<lparr>gcolumns = [''WKT'', ''partner'', ''geometry''], grows = []\<rparr>"

definition empty_checker :: "polygon checker" where
  "empty_checker = \<lparr>polygons_file = ''empty.csv'', df = Some empty_table, gdf = Some empty_gdf\<rparr>"

definition two_gdf :: "polygon geodataframe" where
  "two_gdf =
     \<lparr>gcolumns = [''WKT'', ''partner'', ''geometry''],
      grows = [\<lparr>idx = 0, geometry = ex_square,
                cells = [''WKT'' \<mapsto> PStr ex_wkt, ''partner'' \<mapsto> PStr ''A'']\<rparr>,
               \<lparr>idx = 1, geometry = ex_square,
                cells = [''WKT'' \<mapsto> PStr ex_wkt, ''partner'' \<mapsto> PStr ''B'']\<rparr>]\<rparr>"

definition two_checker :: "polygon checker" where
  "two_checker = \<lparr>polygons_file = ''two.csv'', df = Some two_table, gdf = Some two_gdf\<rparr>"

text \<open>The store of two squares with a city column without any value.\<close>

definition blank_gdf :: "polygon geodataframe" where
  "blank_gdf =
     \<lparr>gcolumns = [''WKT'', ''partner'', ''city'', ''geometry''],
      grows = [\<lparr>idx = 0, geometry = ex_square,
                cells = [''WKT'' \<mapsto> PStr ex_wkt, ''partner'' \<mapsto> PStr ''A'',
                         ''city'' \<mapsto> PNone]\<rparr>,
               \<lparr>idx = 1, geometry = ex_square,
                cells = [''WKT'' \<mapsto> PStr ex_wkt, ''partner'' \<mapsto> PStr ''B'',
                         ''city'' \<mapsto> PNone]\<rparr>]\<rparr>"

definition blank_checker :: "polygon checker" where
  "blank_checker = \<lparr>polygons_file = ''blank.csv'', df = Some blank_table, gdf = Some blank_gdf\<rparr>"

text \<open>The store of two squares after a pass that found the town of both.\<close>

definition filled_gdf :: "polygon geodataframe" where
  "filled_gdf =
     \<lparr>gcolumns = [''WKT'', ''partner'', ''geometry'', ''city''],
      grows = [\<lparr>idx = 0, geometry = ex_square,
                cells = [''WKT'' \<mapsto> PStr ex_wkt, ''partner'' \<mapsto> PStr ''A'',
                         ''city'' \<mapsto> PStr ''Springfield'']\<rparr>,
               \<lparr>idx = 1, geometry = ex_square,
                cells = [''WKT'' \<mapsto> PStr ex_wkt, ''partner'' \<mapsto> PStr ''B'',
                         ''city'' \<mapsto> PStr ''Springfield'']\<rparr>]\<rparr>"

definition filled_checker :: "polygon checker" where
  "filled_checker = \<lparr>polygons_file = ''two.csv'', df = Some two_table, gdf = Some filled_gdf\<rparr>"







text \<open>A store of twelve zones in eleven cities, the last city twice.\<close>

definition city_row :: "nat \<times> string \<Rightarrow> polygon zone_row" where
  "city_row ic =
     \<lparr>idx = fst ic, geometry = ex_square,
      cells = [''WKT'' \<mapsto> PStr ex_wkt, ''city'' \<mapsto> PStr (snd ic)]\<rparr>"

definition cities_gdf :: "polygon geodataframe" where
  "cities_gdf =
     \<lparr>gcolumns = [''WKT'', ''geometry'', ''city''],
      grows = map city_row
                (List.enumerate 0 [''a'', ''b'', ''c'', ''d'', ''e'', ''f'', ''g'', ''h'', ''i'',
                                   ''j'', ''k'', ''k''])\<rparr>"

definition cities_checker :: "polygon checker" where
  "cities_checker =
     \<lparr>polygons_file = ''cities.csv'',
      df = Some \<lparr>columns = [''WKT'', ''city''], rows = map cells (grows cities_gdf)\<rparr>,
      gdf = Some cities_gdf\<rparr>"

text \<open>An object that was never loaded.\<close>

definition unloaded_checker :: "polygon checker" where
  "unloaded_checker = \<lparr>polygons_file = ''polygons.csv'', df = None, gdf = None\<rparr>"

section \<open>Facts about loading and querying\<close>

lemma foldl_append_map: "foldl (\<lambda>acc r. acc @ [f r]) a xs = a @ map f xs"
  by (induction xs arbitrary: a) auto

lemma point_in_zones_loaded:
  "gdf self = Some g \<Longrightarrow>
   point_in_zones env self lat lon = Inr (map (to_result (gcolumns g)) (intersecting env g lat lon))"
  by (simp add: point_in_zones_def foldl_append_map)

lemma scan_wkt_mem:
  "(j, g) \<in> set (scan_wkt env i ws) \<longleftrightarrow>
     i \<le> j \<and> j < i + length ws \<and> parse_wkt env (ws ! (j - i)) = Some g"
proof (induction ws arbitrary: i)
  case Nil
  then show ?case by simp
next
  case (Cons w ws)
  have nth: "j > i \<Longrightarrow> (w # ws) ! (j - i) = ws ! (j - Suc i)" for j
    by (simp add: nth_Cons')
  show ?case
  proof (cases "j = i")
    case True
    then show ?thesis using Cons.IH [of "Suc i"] by (auto split: option.splits)
  next
    case False
    then show ?thesis using Cons.IH [of "Suc i"] nth [of j]
      by (auto split: option.splits)
  qed
qed

lemma scan_wkt_sorted: "sorted_wrt (<) (map fst (scan_wkt env i ws))"
proof (induction ws arbitrary: i)
  case Nil
  then show ?case by simp
next
  case (Cons w ws)
  have "\<forall>p \<in> set (scan_wkt env (Suc i) ws). i < fst p"
    using scan_wkt_mem [of _ _ env "Suc i" ws] by force
  then show ?case using Cons.IH [of "Suc i"] by (auto split: option.splits)
qed

lemma init_Inr:
  "init env file = Inr self \<Longrightarrow>
   \<exists>d. (if endswith file ''.xlsx'' then read_excel env file
        else if endswith file ''.csv'' then read_csv env file else Inl ValueError) = Inr d \<and>
       ''WKT'' \<in> set (columns d) \<and> polygons_file self = file \<and> df self = Some d \<and>
       gdf self = Some (build_gdf d (scan_wkt env 0 (map (\<lambda>r. cell r ''WKT'') (rows d))))"
  unfolding init_def load_data_def
  by (auto split: sum.splits if_splits)

lemma to_result_get:
  "to_result cols r k =
     (if k \<in> set cols \<and> k \<noteq> ''geometry'' then Some (Cell (cell (cells r) k))
      else [''index'' \<mapsto> Index (idx r), ''geometry'' \<mapsto> Geom (geometry r)] k)"
proof -
  have H: "fold (\<lambda>col res. if col \<noteq> ''geometry'' then res(col \<mapsto> Cell (cell (cells r) col)) else res)
          cols m k =
        (if k \<in> set cols \<and> k \<noteq> ''geometry'' then Some (Cell (cell (cells r) k)) else m k)" for m
    by (induction cols arbitrary: m) auto
  show ?thesis unfolding to_result_def by (rule H)
qed

section \<open>Facts about the containment predicate\<close>

lemma count_segment_flag:
  "is_point_on_segment (count_segment q p1 p2 c) = (is_point_on_segment c \<or> touches q p1 p2)"
  by (simp add: count_segment_def touches_def Let_def)

lemma touches_endpoint: "touches q p1 q"
  by (simp add: touches_def count_segment_def)

lemma touches_on_segment:
  assumes "on_segment a b q" "q \<noteq> a"
  shows "touches q a b"
proof (cases "q = b")
  case True
  then show ?thesis by (simp add: touches_endpoint)
next
  case False
  obtain ax ay where a: "a = (ax, ay)" by (cases a)
  obtain bx by' where b: "b = (bx, by')" by (cases b)
  obtain qx qy where q: "q = (qx, qy)" by (cases q)
  from assms(1) have col: "(bx - ax) * (qy - ay) = (by' - ay) * (qx - ax)"
    and x: "min ax bx \<le> qx" "qx \<le> max ax bx" and y: "min ay by' \<le> qy" "qy \<le> max ay by'"
    by (simp_all add: on_segment_def a b q)
  have nleft: "\<not> (ax < qx \<and> bx < qx)" using x by auto
  show ?thesis
  proof (cases "ay = qy \<and> by' = qy")
    case True
    then show ?thesis using x nleft False
      by (auto simp: touches_def count_segment_def a b q)
  next
    case nh: False
    have ne: "ay \<noteq> by'" using nh y by auto
    have qb: "qy \<noteq> by'"
    proof
      assume "qy = by'"
      with col have "(bx - ax) * (by' - ay) = (by' - ay) * (qx - ax)" by simp
      with ne have "bx - ax = qx - ax" by simp
      with \<open>qy = by'\<close> False show False by (simp add: q b)
    qed
    have qa: "qy \<noteq> ay"
    proof
      assume "qy = ay"
      with col have "(by' - ay) * (qx - ax) = 0" by simp
      with ne have "qx = ax" by simp
      with \<open>qy = ay\<close> assms(2) show False by (simp add: q a)
    qed
    have cross: "(ay > qy \<and> by' \<le> qy) \<or> (by' > qy \<and> ay \<le> qy)"
      using y qa qb by (auto simp: min_def max_def split: if_splits)
    have o: "orientation_index a b q = 0"
      using col by (simp add: orientation_index_def a b q)
    show ?thesis using nleft False nh cross o
      by (auto simp: touches_def count_segment_def a b q Let_def)
  qed
qed

lemma count_ring_keeps_flag:
  "is_point_on_segment c \<Longrightarrow> is_point_on_segment (count_ring q ring c)"
  by (induction q ring c rule: count_ring.induct) (auto simp: Let_def count_segment_flag)

lemma count_ring_vertex:
  "q \<in> set ps \<Longrightarrow> is_point_on_segment (count_ring q (a # ps) c)"
proof (induction ps arbitrary: a c)
  case Nil
  then show ?case by simp
next
  case (Cons b ps)
  show ?case
  proof (cases "q = b")
    case True
    then show ?thesis by (simp add: Let_def count_segment_flag touches_endpoint)
  next
    case False
    with Cons.prems have "q \<in> set ps" by simp
    from Cons.IH [OF this] show ?thesis by (simp add: Let_def)
  qed
qed

lemma count_ring_edge:
  "on_ring_edge q (a # ps) \<Longrightarrow> q \<noteq> a \<Longrightarrow> is_point_on_segment (count_ring q (a # ps) c)"
proof (induction ps arbitrary: a c)
  case Nil
  then show ?case by simp
next
  case (Cons b ps)
  show ?case
  proof (cases "on_segment a b q")
    case True
    with Cons.prems have "touches q a b" by (simp add: touches_on_segment)
    then show ?thesis by (simp add: Let_def count_segment_flag)
  next
    case False
    with Cons.prems have e: "on_ring_edge q (b # ps)" by simp
    show ?thesis
    proof (cases "q = b")
      case True
      then show ?thesis by (simp add: Let_def count_segment_flag touches_endpoint)
    next
      case False
      from Cons.IH [OF e False] show ?thesis by (simp add: Let_def)
    qed
  qed
qed

lemma ring_edge_boundary:
  assumes "closed_ring ring" "on_ring_edge q ring"
  shows "locate_point_in_ring q ring = Boundary"
proof -
  have "\<exists>a b ps. ring = a # b # ps"
  proof (cases ring)
    case Nil
    with assms(2) show ?thesis by simp
  next
    case (Cons a rest)
    with assms(2) show ?thesis by (cases rest) auto
  qed
  then obtain a b ps where ring: "ring = a # b # ps" by blast
  have "is_point_on_segment (count_ring q ring c)" for c
  proof (cases "q = a")
    case True
    from assms(1) have "last (b # ps) = a" by (simp add: closed_ring_def ring)
    then have "q \<in> set (b # ps)" using True last_in_set [of "b # ps"] by auto
    then show ?thesis unfolding ring by (rule count_ring_vertex)
  next
    case False
    with assms(2) show ?thesis unfolding ring by (intro count_ring_edge)
  qed
  then show ?thesis by (simp add: locate_point_in_ring_def get_location_def)
qed

lemma holes_edge_not_interior:
  "list_all closed_ring hs \<Longrightarrow> list_ex (on_ring_edge q) hs \<Longrightarrow> locate_in_holes q hs \<noteq> Interior"
proof (induction hs)
  case Nil
  then show ?case by simp
next
  case (Cons h hs)
  show ?case
  proof (cases "on_ring_edge q h")
    case True
    with Cons.prems have "locate_point_in_ring q h = Boundary"
      by (simp add: ring_edge_boundary)
    then show ?thesis by simp
  next
    case False
    with Cons show ?thesis by (auto split: location.splits)
  qed
qed

lemma polygon_edge_not_contained:
  assumes "closed_polygon poly" "on_polygon_edge q poly"
  shows "\<not> polygon_contains poly q"
proof (cases "on_ring_edge q (shell poly)")
  case True
  with assms(1) have "locate_point_in_ring q (shell poly) = Boundary"
    by (simp add: ring_edge_boundary closed_polygon_def)
  then show ?thesis
    by (simp add: polygon_contains_def locate_point_in_polygon_def)
next
  case False
  with assms have "locate_in_holes q (holes poly) \<noteq> Interior"
    by (simp add: on_polygon_edge_def closed_polygon_def holes_edge_not_interior)
  then show ?thesis
    by (auto simp: polygon_contains_def locate_point_in_polygon_def split: location.splits)
qed

section \<open>The example data, evaluated\<close>

lemma init_ex: "init ex_env ''polygons.csv'' = Inr ex_checker"
  by (simp add: init_def load_data_def ex_env_def endswith_def ex_table_def ex_checker_def ex_gdf_def
      build_gdf_def cell_def parse_wkt_def)

lemma init_empty: "init ex_env ''empty.csv'' = Inr empty_checker"
  by (simp add: init_def load_data_def ex_env_def endswith_def empty_table_def empty_checker_def empty_gdf_def
      build_gdf_def cell_def parse_wkt_def)

lemma init_two: "init ex_env ''two.csv'' = Inr two_checker"
  by (simp add: init_def load_data_def ex_env_def endswith_def two_table_def two_checker_def two_gdf_def
      build_gdf_def cell_def parse_wkt_def)

lemma ex_inside: "polygon_contains ex_square (1, 1)"
  by (simp add: polygon_contains_def locate_point_in_polygon_def locate_point_in_ring_def
      get_location_def count_segment_def orientation_index_def ex_square_def Let_def)

lemma ex_outside: "\<not> polygon_contains ex_square (5, 5)"
  by (simp add: polygon_contains_def locate_point_in_polygon_def locate_point_in_ring_def
      get_location_def count_segment_def orientation_index_def ex_square_def Let_def)

lemma ex_edge: "\<not> polygon_contains ex_square (0, 1)"
  by (simp add: polygon_contains_def locate_point_in_polygon_def locate_point_in_ring_def
      get_location_def count_segment_def orientation_index_def ex_square_def Let_def)

lemma ex_on_edge: "on_polygon_edge (0, 1) ex_square"
  by (simp add: on_polygon_edge_def ex_square_def on_segment_def)

lemma ex_closed: "closed_polygon ex_square"
  by (simp add: closed_polygon_def closed_ring_def ex_square_def)

section \<open>Facts about the city of an answer\<close>

lemma resolve_city_first_truthy:
  "resolve_city a = first_truthy (map (\<lambda>k. dict_get a k PNone) city_fields)"
  by (simp add: resolve_city_def first_truthy_def city_fields_def py_or_def)


section \<open>Facts about the enrichment loop\<close>




lemma enrich_loop_nothing_pending:
  "\<forall>r \<in> set rs. \<not> needs_city r \<Longrightarrow> enrich_loop env sf bs fresh rs st = (None, st)"
  by (induction rs) auto
























lemma self_gdf_same: "gdf self = Some g \<Longrightarrow> self\<lparr>gdf := Some g\<rparr> = self"
  by (cases self) simp




section \<open>Passes over the example stores\<close>

lemmas run_defs = add_city_column_def enrich_row_def get_city_from_geometry_def
  get_city_from_coordinates_def city_of_result_def resolve_city_def py_or_def truthy_def
  dict_get_def n_requests_def gdf_set_at_def add_column_def needs_city_def cell_def
  given_file_def Let_def

lemma run_online:
  "add_city_column ex_env None 10 two_checker [] =
     (None, filled_checker,
      [Request 1 1, Progress 1 (PStr ''Springfield''),
       Request 1 1, Progress 2 (PStr ''Springfield'')])"
  by (simp add: run_defs ex_env_def two_checker_def two_gdf_def filled_checker_def filled_gdf_def)

lemma run_saved:
  "fst (add_city_column ex_env (Some ''out.csv'') 2 two_checker []) = None \<and>
   marks (snd (snd (add_city_column ex_env (Some ''out.csv'') 2 two_checker []))) =
     [Record_done 1, Record_done 2, File_written ''out.csv'', Checkpoint_done,
      File_written ''out.csv'']"
  by (simp add: run_defs ex_env_def two_checker_def two_gdf_def two_table_def
      save_data_def save_df_of_def overlay_column_def set_at_def
      endswith_def marks_def mark_of_def List.map_filter_def upt_rec)



lemma run_refused:
  "add_city_column float_env (Some ''out.csv'') 2 blank_checker [] =
     (Some TypeError, blank_checker, [Request 1 1])"
  by (simp add: run_defs float_env_def ex_env_def blank_checker_def blank_gdf_def)

lemma init_blank: "init ex_env ''blank.csv'' = Inr blank_checker"
  by (simp add: init_def load_data_def ex_env_def endswith_def blank_table_def blank_checker_def
      blank_gdf_def build_gdf_def cell_def parse_wkt_def)

section \<open>Facts about first occurrences\<close>

lemma first_seen_Nil: "first_seen [] = []"
  by (simp add: first_seen_def)

lemma first_seen_snoc:
  "first_seen (xs @ [x]) = (if x \<in> set (first_seen xs) then first_seen xs else first_seen xs @ [x])"
  by (simp add: first_seen_def)

lemma set_first_seen: "set (first_seen xs) = set xs"
  by (induction xs rule: rev_induct) (auto simp: first_seen_Nil first_seen_snoc)

lemma distinct_first_seen: "distinct (first_seen xs)"
  by (induction xs rule: rev_induct) (auto simp: first_seen_Nil first_seen_snoc)

section \<open>Facts about the grouping loop\<close>






lemma key_of_eq:
  "key_of env y = key_of env z \<longleftrightarrow>
     zone_restaurant_id y = zone_restaurant_id z \<and>
     (zone_restaurant_id z = Cell PNone \<longrightarrow> nan_object env y = nan_object env z)"
  by (auto simp: key_of_def)




section \<open>Facts about the statistics\<close>

lemma length_value_counts: "length (value_counts xs) = nunique xs"
  by (simp add: value_counts_def nunique_def)

lemma set_value_counts:
  "set (value_counts xs) = (\<lambda>v. (v, count_list xs v)) ` {v \<in> set xs. v \<noteq> PNone}"
  by (auto simp: value_counts_def set_first_seen nonnull_def)

lemma distinct_value_counts: "distinct (map fst (value_counts xs))"
proof -
  have "distinct (map (\<lambda>v. (v, count_list xs v)) (first_seen (nonnull xs)))"
    by (simp add: distinct_map distinct_first_seen inj_on_def)
  then have "distinct (value_counts xs)" by (simp add: value_counts_def)
  moreover have "inj_on fst (set (value_counts xs))"
    by (auto simp: set_value_counts inj_on_def)
  ultimately show ?thesis by (simp add: distinct_map)
qed

lemma sorted_value_counts: "sorted (map (\<lambda>p. - int (snd p)) (value_counts xs))"
  by (simp add: value_counts_def)

lemma take_before_drop:
  assumes "sorted (map f l)" and "x \<in> set (take n l)" and "y \<in> set (drop n l)"
  shows "f x \<le> f y"
proof -
  have "sorted (map f (take n l) @ map f (drop n l))"
    using assms(1) by (simp flip: map_append)
  then show ?thesis using assms(2,3) by (auto simp: sorted_append)
qed

lemma cities_column:
  "column_values cities_gdf ''city'' =
     map PStr [''a'', ''b'', ''c'', ''d'', ''e'', ''f'', ''g'', ''h'', ''i'', ''j'', ''k'', ''k'']"
  by (simp add: column_values_def cities_gdf_def city_row_def cell_def enumerate_eq_zip upt_rec)

lemma cities_nunique: "nunique (column_values cities_gdf ''city'') = 11"
  by (simp add: cities_column nunique_def nonnull_def first_seen_def)

lemma cities_top:
  "map_option (map_option hd \<circ> city_distribution) (get_stats cities_checker) =
     Some (Some (PStr ''k'', 2))"
  by (simp add: get_stats_def cities_checker_def cities_column value_counts_def nonnull_def
      first_seen_def sort_key_def) (simp add: cities_gdf_def)

section \<open>Claims about the containment query\<close>

text \<open>
  Claim C5. On a loaded store, \<^verbatim>\<open>point_in_zones\<close> returns one dictionary for every
  record whose geometry contains the point, none left out, in the order of the store,
  which is the order of strictly increasing ids; unless the source has a column named
  \<^verbatim>\<open>index\<close>, each dictionary carries its record's id under that key.
\<close>

theorem point_in_zones_all_in_row_order:
  assumes "init env file = Inr self"
  shows "\<exists>g. gdf self = Some g \<and>
     point_in_zones env self lat lon =
       Inr (map (to_result (gcolumns g))
              (filter (\<lambda>r. contains env (geometry r) (lon, lat)) (grows g))) \<and>
     sorted_wrt (<) (map idx (filter (\<lambda>r. contains env (geometry r) (lon, lat)) (grows g))) \<and>
     (''index'' \<notin> set (gcolumns g) \<longrightarrow>
        (\<forall>r::'g zone_row. to_result (gcolumns g) r ''index'' = Some (Index (idx r))))"
proof -
  from init_Inr [OF assms] obtain d where
    g: "gdf self = Some (build_gdf d (scan_wkt env 0 (map (\<lambda>r. cell r ''WKT'') (rows d))))"
    by blast
  define g0 where "g0 = build_gdf d (scan_wkt env 0 (map (\<lambda>r. cell r ''WKT'') (rows d)))"
  have g': "gdf self = Some g0" using g by (simp add: g0_def)
  have "map idx (grows g0) = map fst (scan_wkt env 0 (map (\<lambda>r. cell r ''WKT'') (rows d)))"
    by (auto simp: g0_def build_gdf_def)
  then have "sorted_wrt (<) (map idx (grows g0))" by (simp add: scan_wkt_sorted)
  then have s: "sorted_wrt (<) (map idx (filter (\<lambda>r. contains env (geometry r) (lon, lat)) (grows g0)))"
    by (simp add: sorted_wrt_map sorted_wrt_filter)
  show ?thesis using g' s point_in_zones_loaded [OF g', of env lat lon]
    by (auto simp: intersecting_def to_result_get)
qed

theorem point_in_zones_all_in_row_order_witness:
  "init ex_env ''two.csv'' = Inr two_checker \<and>
   (case point_in_zones ex_env two_checker 1 1 of
      Inl e \<Rightarrow> False
    | Inr zs \<Rightarrow> map (\<lambda>z. z ''index'') zs = [Some (Index 0), Some (Index 1)])"
proof -
  from point_in_zones_all_in_row_order [OF init_two, of 1 1] obtain g where
    g: "gdf two_checker = Some g" and
    p: "point_in_zones ex_env two_checker 1 1 =
       Inr (map (to_result (gcolumns g))
              (filter (\<lambda>r. contains ex_env (geometry r) (1, 1)) (grows g)))" and
    i: "''index'' \<notin> set (gcolumns g) \<longrightarrow>
        (\<forall>r::polygon zone_row. to_result (gcolumns g) r ''index'' = Some (Index (idx r)))"
    by blast
  have c: "contains ex_env = polygon_contains" by (simp add: ex_env_def)
  from g have g_eq: "g = two_gdf" by (simp add: two_checker_def)
  from i have i': "\<And>r::polygon zone_row. to_result (gcolumns g) r ''index'' = Some (Index (idx r))"
    by (simp add: g_eq two_gdf_def)
  have "point_in_zones ex_env two_checker 1 1 = Inr (map (to_result (gcolumns g)) (grows g))"
    using p by (simp add: g_eq two_gdf_def c ex_inside)
  then show ?thesis using init_two i' by (simp add: g_eq two_gdf_def)
qed

text \<open>
  Claim C2, as amended. \<^verbatim>\<open>point_in_zones\<close> raises on an object whose table was never
  loaded; on a loaded store without records it returns the empty list.
\<close>

theorem point_in_zones_unloaded_or_empty:
  "(gdf self = None \<longrightarrow> point_in_zones env self lat lon = Inl ValueError) \<and>
   (\<forall>g. gdf self = Some g \<and> grows g = [] \<longrightarrow> point_in_zones env self lat lon = Inr [])"
  by (simp add: point_in_zones_def intersecting_def)

theorem point_in_zones_unloaded_or_empty_witness:
  "gdf unloaded_checker = None \<and> point_in_zones ex_env unloaded_checker 3 4 = Inl ValueError \<and>
   gdf empty_checker = Some empty_gdf \<and> grows empty_gdf = [] \<and>
   point_in_zones ex_env empty_checker 3 4 = Inr []"
proof -
  have a: "gdf unloaded_checker = None" by (simp add: unloaded_checker_def)
  have b: "gdf empty_checker = Some empty_gdf" "grows empty_gdf = []"
    by (simp_all add: empty_checker_def empty_gdf_def)
  from point_in_zones_unloaded_or_empty [of unloaded_checker ex_env 3 4] a
  have "point_in_zones ex_env unloaded_checker 3 4 = Inl ValueError" by blast
  moreover from point_in_zones_unloaded_or_empty [of empty_checker ex_env 3 4] b
  have "point_in_zones ex_env empty_checker 3 4 = Inr []" by simp
  ultimately show ?thesis using a b by simp
qed

text \<open>
  The claim as stated asks for an exception on an empty store too. The source whose only
  row has no boundary text loads into a store without records, and the query on it
  returns the empty list.
\<close>

theorem empty_store_counterexample:
  "init ex_env ''empty.csv'' = Inr empty_checker \<and>
   point_in_zones ex_env empty_checker 0 0 = Inr []"
  using init_empty by (simp add: point_in_zones_def intersecting_def empty_checker_def empty_gdf_def)

text \<open>
  Claim C1, as amended. With the containment predicate of the geometry library, a point
  that lies exactly on an edge of a zone's polygon (of its shell or of a hole) is not
  contained in that zone: \<^verbatim>\<open>point_in_zones\<close> answers with the selected rows, and the
  zone is not among them. Containment holds in the interior only.
\<close>

theorem edge_point_is_not_contained:
  assumes "contains env = polygon_contains" and "gdf self = Some g" and "r \<in> set (grows g)"
    and "closed_polygon (geometry r)" and "on_polygon_edge (lon, lat) (geometry r)"
  shows "point_in_zones env self lat lon =
           Inr (map (to_result (gcolumns g)) (intersecting env g lat lon)) \<and>
         r \<notin> set (intersecting env g lat lon)"
proof -
  have "\<not> polygon_contains (geometry r) (lon, lat)"
    using assms(4,5) by (rule polygon_edge_not_contained)
  then have "r \<notin> set (intersecting env g lat lon)"
    by (simp add: intersecting_def assms(1))
  then show ?thesis using point_in_zones_loaded [OF assms(2)] by simp
qed

theorem edge_point_is_not_contained_witness:
  "contains ex_env = polygon_contains \<and> closed_polygon ex_square \<and>
   on_polygon_edge (0, 1) ex_square \<and> point_in_zones ex_env ex_checker 1 0 = Inr []"
proof -
  define r where "r = \<lparr>idx = 0, geometry = ex_square,
                cells = [''WKT'' \<mapsto> PStr ex_wkt, ''partner'' \<mapsto> PStr ''A'', ''id'' \<mapsto> PNum 1]\<rparr>"
  have h1: "contains ex_env = polygon_contains" by (simp add: ex_env_def)
  have h2: "gdf ex_checker = Some ex_gdf" by (simp add: ex_checker_def)
  have h3: "r \<in> set (grows ex_gdf)" by (simp add: ex_gdf_def r_def)
  have h4: "closed_polygon (geometry r)" by (simp add: r_def ex_closed)
  have h5: "on_polygon_edge (0, 1) (geometry r)" by (simp add: r_def ex_on_edge)
  have rows: "grows ex_gdf = [r]" by (simp add: ex_gdf_def r_def)
  from edge_point_is_not_contained [OF h1 h2 h3 h4 h5]
  have "point_in_zones ex_env ex_checker 1 0 = Inr (map (to_result (gcolumns ex_gdf)) (intersecting ex_env ex_gdf 1 0))"
    and "r \<notin> set (intersecting ex_env ex_gdf 1 0)" by simp_all
  moreover from this(2) have "intersecting ex_env ex_gdf 1 0 = []"
    by (simp add: intersecting_def rows split: if_splits)
  ultimately show ?thesis using h1 ex_closed ex_on_edge by simp
qed

text \<open>
  The claim as stated includes the zone. The point at latitude 1 and longitude 0 lies on
  the left edge of the square of the example source; the query on the loaded store
  returns no zone for it, while the centre of the square is found.
\<close>

theorem edge_point_counterexample:
  "init ex_env ''polygons.csv'' = Inr ex_checker \<and> on_polygon_edge (0, 1) ex_square \<and>
   point_in_zones ex_env ex_checker 1 0 = Inr [] \<and>
   is_point_in_any_zone ex_env ex_checker 1 1 = Inr True"
proof -
  have c: "contains ex_env = polygon_contains" by (simp add: ex_env_def)
  have "point_in_zones ex_env ex_checker 1 0 = Inr []"
    by (simp add: point_in_zones_def intersecting_def ex_checker_def ex_gdf_def c ex_edge)
  moreover have "is_point_in_any_zone ex_env ex_checker 1 1 = Inr True"
    by (simp add: is_point_in_any_zone_def point_in_zones_def intersecting_def ex_checker_def ex_gdf_def c ex_inside)
  ultimately show ?thesis using init_ex ex_on_edge by simp
qed

section \<open>Claims about the restaurants of a point\<close>



section \<open>Claims about enrichment\<close>




text \<open>
  Claim C4. On a store in which every record has a city column with a value that is
  neither missing nor empty, \<^verbatim>\<open>add_city_column\<close> makes no request to the geocoder and
  leaves the records as they are; the trace grows by the final save at most, and the
  whole object is unchanged (a store without records and without a city column gains the
  column).
\<close>

theorem add_city_column_idempotent:
  assumes "gdf self = Some g"
    and "\<forall>r \<in> set (grows g). ''city'' \<in> set (gcolumns g) \<and> \<not> needs_city r"
  shows "\<exists>err self' tr'. add_city_column env save_file batch_size self tr = (err, self', tr') \<and>
     n_requests tr' = n_requests tr \<and>
     (tr' = tr \<or> (\<exists>f t. given_file save_file = Some f \<and> tr' = tr @ [Saved f t])) \<and>
     polygons_file self' = polygons_file self \<and> df self' = df self \<and>
     (\<exists>g'. gdf self' = Some g' \<and> grows g' = grows g) \<and>
     (''city'' \<in> set (gcolumns g) \<longrightarrow> self' = self)"
proof -
  define fresh where "fresh = (''city'' \<notin> set (gcolumns g))"
  define g1 where "g1 = (if fresh then add_column g ''city'' PNone else g)"
  define st0 where "st0 = \<lparr>obj = self\<lparr>gdf := Some g1\<rparr>, processed = 0, trace = tr\<rparr>"
  have rows1: "grows g1 = grows g"
  proof (cases "''city'' \<in> set (gcolumns g)")
    case True
    then show ?thesis by (simp add: g1_def fresh_def)
  next
    case False
    with assms(2) have "grows g = []" by (cases "grows g") auto
    then show ?thesis by (simp add: g1_def add_column_def)
  qed
  have "\<forall>r \<in> set (grows g1). \<not> needs_city r" using assms(2) by (simp add: rows1)
  then have l: "enrich_loop env save_file batch_size fresh (grows g1) st0 = (None, st0)"
    by (rule enrich_loop_nothing_pending)
  have same: "''city'' \<in> set (gcolumns g) \<Longrightarrow> self\<lparr>gdf := Some g1\<rparr> = self"
    using self_gdf_same [OF assms(1)] by (simp add: g1_def fresh_def)
  have nr: "n_requests (tr @ [Saved f t]) = n_requests tr" for f t
    by (simp add: n_requests_def)
  show ?thesis
  proof (cases "given_file save_file")
    case None
    then have "add_city_column env save_file batch_size self tr = (None, self\<lparr>gdf := Some g1\<rparr>, tr)"
      using l assms(1) by (simp add: add_city_column_def Let_def g1_def st0_def fresh_def)
    then show ?thesis using rows1 same by auto
  next
    case (Some f)
    show ?thesis
    proof (cases "save_data env (self\<lparr>gdf := Some g1\<rparr>) f")
      case (Inl e)
      then have "add_city_column env save_file batch_size self tr = (Some e, self\<lparr>gdf := Some g1\<rparr>, tr)"
        using l assms(1) Some by (simp add: add_city_column_def Let_def g1_def st0_def fresh_def)
      then show ?thesis using rows1 same by auto
    next
      case (Inr t)
      then have "add_city_column env save_file batch_size self tr =
          (None, self\<lparr>gdf := Some g1\<rparr>, tr @ [Saved f t])"
        using l assms(1) Some by (simp add: add_city_column_def Let_def g1_def st0_def fresh_def)
      then show ?thesis using rows1 same Some nr by auto
    qed
  qed
qed

theorem add_city_column_idempotent_witness:
  "gdf filled_checker = Some filled_gdf \<and>
   list_all (\<lambda>r. \<not> needs_city r) (grows filled_gdf) \<and>
   snd (add_city_column ex_env None 10 filled_checker [Request 1 1]) =
     (filled_checker, [Request 1 1])"
proof -
  have h1: "gdf filled_checker = Some filled_gdf" by (simp add: filled_checker_def)
  have h2: "\<forall>r \<in> set (grows filled_gdf). ''city'' \<in> set (gcolumns filled_gdf) \<and> \<not> needs_city r"
    by (simp add: filled_gdf_def needs_city_def cell_def)
  have h2': "list_all (\<lambda>r. \<not> needs_city r) (grows filled_gdf)"
    by (simp add: filled_gdf_def needs_city_def cell_def)
  from add_city_column_idempotent [OF h1 h2, of ex_env None 10 "[Request 1 1]"]
  obtain err self' tr' where
    r: "add_city_column ex_env None 10 filled_checker [Request 1 1] = (err, self', tr')" and
    t: "tr' = [Request 1 1] \<or>
        (\<exists>f t. given_file None = Some f \<and> tr' = [Request 1 1] @ [Saved f t])" and
    s: "''city'' \<in> set (gcolumns filled_gdf) \<longrightarrow> self' = filled_checker"
    by blast
  from t have "tr' = [Request 1 1]" by (simp add: given_file_def)
  moreover from s have "self' = filled_checker" by (simp add: filled_gdf_def)
  ultimately show ?thesis using h1 h2' r by simp
qed




section \<open>Claims about loading\<close>

text \<open>
  Claim C7. After a load, every record of the store has a geometry that the parser
  produced from the boundary text of the source row whose position is the record's id,
  and carries that row's cells; the ids are strictly increasing. Every row whose
  boundary text is missing or is rejected by the parser is absent from the store, every
  row whose boundary text parses is in it whatever the other rows hold, and every answer
  of a query is made of records of the store.
\<close>

theorem load_keeps_parsed_rows_only:
  assumes "init env file = Inr self"
  shows "\<exists>d g. df self = Some d \<and> gdf self = Some g \<and>
    (\<forall>r \<in> set (grows g). idx r < length (rows d) \<and> cells r = rows d ! idx r \<and>
        (\<exists>s. cell (rows d ! idx r) ''WKT'' = PStr s \<and> loads env s = Some (geometry r))) \<and>
    sorted_wrt (<) (map idx (grows g)) \<and>
    (\<forall>i < length (rows d).
        (cell (rows d ! i) ''WKT'' = PNone \<or>
         (\<exists>s. cell (rows d ! i) ''WKT'' = PStr s \<and> loads env s = None)) \<longrightarrow>
        i \<notin> set (map idx (grows g))) \<and>
    (\<forall>i < length (rows d). \<forall>s geo.
        cell (rows d ! i) ''WKT'' = PStr s \<and> loads env s = Some geo \<longrightarrow>
        \<lparr>idx = i, geometry = geo, cells = rows d ! i\<rparr> \<in> set (grows g)) \<and>
    (\<forall>lat lon. \<exists>zs. point_in_zones env self lat lon = Inr zs \<and>
        (\<forall>z \<in> set zs. \<exists>r \<in> set (grows g). z = to_result (gcolumns g) r))"
proof -
  from init_Inr [OF assms] obtain d where
    cols: "''WKT'' \<in> set (columns d)" and d: "df self = Some d" and
    g: "gdf self = Some (build_gdf d (scan_wkt env 0 (map (\<lambda>r. cell r ''WKT'') (rows d))))"
    by blast
  define ws where "ws = map (\<lambda>r. cell r ''WKT'') (rows d)"
  define g0 where "g0 = build_gdf d (scan_wkt env 0 ws)"
  have g': "gdf self = Some g0" using g by (simp add: g0_def ws_def)
  have rows_g0: "grows g0 = map (\<lambda>(i, g). \<lparr>idx = i, geometry = g, cells = rows d ! i\<rparr>) (scan_wkt env 0 ws)"
    by (simp add: g0_def build_gdf_def)
  have mem: "(j, geo) \<in> set (scan_wkt env 0 ws) \<longleftrightarrow>
      j < length (rows d) \<and> parse_wkt env (cell (rows d ! j) ''WKT'') = Some geo" for j geo
    using scan_wkt_mem [of j geo env 0 ws] by (auto simp: ws_def)
  have parse: "parse_wkt env w = Some geo \<longleftrightarrow> (\<exists>s. w = PStr s \<and> loads env s = Some geo)" for w geo
    by (cases w) (auto simp: parse_wkt_def)
  have a: "\<forall>r \<in> set (grows g0). idx r < length (rows d) \<and> cells r = rows d ! idx r \<and>
        (\<exists>s. cell (rows d ! idx r) ''WKT'' = PStr s \<and> loads env s = Some (geometry r))"
    using mem parse by (auto simp: rows_g0)
  have idxs: "map idx (grows g0) = map fst (scan_wkt env 0 ws)"
    by (auto simp: rows_g0)
  have b: "sorted_wrt (<) (map idx (grows g0))"
    unfolding idxs by (rule scan_wkt_sorted)
  have c: "\<forall>i < length (rows d).
        (cell (rows d ! i) ''WKT'' = PNone \<or>
         (\<exists>s. cell (rows d ! i) ''WKT'' = PStr s \<and> loads env s = None)) \<longrightarrow>
        i \<notin> set (map idx (grows g0))"
    unfolding idxs using mem parse by force
  have e: "\<forall>i < length (rows d). \<forall>s geo.
        cell (rows d ! i) ''WKT'' = PStr s \<and> loads env s = Some geo \<longrightarrow>
        \<lparr>idx = i, geometry = geo, cells = rows d ! i\<rparr> \<in> set (grows g0)"
  proof (intro allI impI)
    fix i s geo
    assume "i < length (rows d)" "cell (rows d ! i) ''WKT'' = PStr s \<and> loads env s = Some geo"
    then have "(i, geo) \<in> set (scan_wkt env 0 ws)" using mem parse by blast
    then show "\<lparr>idx = i, geometry = geo, cells = rows d ! i\<rparr> \<in> set (grows g0)"
      unfolding rows_g0 by force
  qed
  have f: "\<forall>lat lon. \<exists>zs. point_in_zones env self lat lon = Inr zs \<and>
        (\<forall>z \<in> set zs. \<exists>r \<in> set (grows g0). z = to_result (gcolumns g0) r)"
    using point_in_zones_loaded [OF g'] by (auto simp: intersecting_def)
  show ?thesis using d g' a b c e f by blast
qed

theorem load_keeps_parsed_rows_only_witness:
  "init ex_env ''polygons.csv'' = Inr ex_checker \<and>
   cell (rows ex_table ! 1) ''WKT'' = PNone \<and>
   cell (rows ex_table ! 0) ''WKT'' = PStr ex_wkt \<and> loads ex_env ex_wkt = Some ex_square \<and>
   (\<exists>g. gdf ex_checker = Some g \<and> 1 \<notin> set (map idx (grows g)) \<and>
        \<lparr>idx = 0, geometry = ex_square, cells = rows ex_table ! 0\<rparr> \<in> set (grows g))"
proof -
  from load_keeps_parsed_rows_only [OF init_ex] obtain d g where
    d: "df ex_checker = Some d" and g: "gdf ex_checker = Some g" and
    out: "\<forall>i < length (rows d).
        (cell (rows d ! i) ''WKT'' = PNone \<or>
         (\<exists>s. cell (rows d ! i) ''WKT'' = PStr s \<and> loads ex_env s = None)) \<longrightarrow>
        i \<notin> set (map idx (grows g))" and
    inn: "\<forall>i < length (rows d). \<forall>s geo.
        cell (rows d ! i) ''WKT'' = PStr s \<and> loads ex_env s = Some geo \<longrightarrow>
        \<lparr>idx = i, geometry = geo, cells = rows d ! i\<rparr> \<in> set (grows g)"
    by blast
  from d have d_eq: "d = ex_table" by (simp add: ex_checker_def)
  have n: "length (rows ex_table) = 2" by (simp add: ex_table_def)
  have c1: "cell (rows ex_table ! 1) ''WKT'' = PNone" by (simp add: ex_table_def cell_def)
  have c0: "cell (rows ex_table ! 0) ''WKT'' = PStr ex_wkt" by (simp add: ex_table_def cell_def)
  have l: "loads ex_env ex_wkt = Some ex_square" by (simp add: ex_env_def)
  from out [rule_format, of 1] c1 n have "1 \<notin> set (map idx (grows g))" by (simp add: d_eq)
  moreover from inn [rule_format, of 0 ex_wkt ex_square] c0 l n
  have "\<lparr>idx = 0, geometry = ex_square, cells = rows ex_table ! 0\<rparr> \<in> set (grows g)"
    by (simp add: d_eq)
  ultimately show ?thesis using init_ex c1 c0 l g by blast
qed

section \<open>Claims about reverse geocoding\<close>

text \<open>
  Claim C8, as amended. The city of an answer with status 200 and an address object is
  the first of the fields \<^verbatim>\<open>city\<close>, \<^verbatim>\<open>town\<close>, \<^verbatim>\<open>village\<close>, \<^verbatim>\<open>municipality\<close>,
  \<^verbatim>\<open>county\<close>, in that order, whose value Python takes for true (a present field with
  an empty or null value is passed over; when no field has such a value the result is the
  value of \<^verbatim>\<open>county\<close>, or \<^verbatim>\<open>None\<close> when that is absent). A transport failure, a
  status other than 200, a body that is no JSON object and an address that is absent or
  no object give \<^verbatim>\<open>None\<close>; \<^verbatim>\<open>get_city_from_coordinates\<close> is that function of the
  geocoder's answer and raises nothing.
\<close>

theorem city_is_first_truthy_field:
  "city_of_result TransportFailure = PNone \<and>
   (status \<noteq> 200 \<longrightarrow> city_of_result (Response status b) = PNone) \<and>
   city_of_result (Response 200 (BodyDict (AddrDict a))) =
     first_truthy (map (\<lambda>k. dict_get a k PNone) city_fields) \<and>
   city_of_result (Response 200 (BodyDict AddrAbsent)) = PNone \<and>
   city_of_result (Response 200 (BodyDict AddrNotDict)) = PNone \<and>
   city_of_result (Response 200 BodyNotDict) = PNone \<and>
   city_of_result (Response 200 BodyInvalid) = PNone \<and>
   get_city_from_coordinates env n lat lon = city_of_result (http_get env n (lat, lon))"
  by (simp add: city_of_result_def get_city_from_coordinates_def resolve_city_first_truthy)
     (simp add: first_truthy_def city_fields_def dict_get_def truthy_def)

theorem city_is_first_truthy_field_witness:
  "(404::int) \<noteq> 200 \<and> city_of_result (Response 404 BodyInvalid) = PNone \<and>
   city_of_result (Response 200 (BodyDict (AddrDict
      [''county'' \<mapsto> PStr ''Clark'', ''town'' \<mapsto> PStr ''Springfield'']))) = PStr ''Springfield'' \<and>
   get_city_from_coordinates offline_env 0 1 1 = PNone"
  using city_is_first_truthy_field [of 404 BodyInvalid
      "[''county'' \<mapsto> PStr ''Clark'', ''town'' \<mapsto> PStr ''Springfield'']" offline_env 0 1 1]
  by (simp add: first_truthy_def city_fields_def dict_get_def truthy_def offline_env_def
      ex_env_def city_of_result_def)

text \<open>
  The claim as stated takes the first field that is present. In the address below the
  field \<^verbatim>\<open>city\<close> is present with the empty string as its value; the first present
  field gives the empty string, the program gives the town.
\<close>

theorem first_present_counterexample:
  "[''city'' \<mapsto> PStr [], ''town'' \<mapsto> PStr ''Springfield''] ''city'' = Some (PStr []) \<and>
   first_present [''city'' \<mapsto> PStr [], ''town'' \<mapsto> PStr ''Springfield''] city_fields = PStr [] \<and>
   city_of_result (Response 200 (BodyDict (AddrDict
      [''city'' \<mapsto> PStr [], ''town'' \<mapsto> PStr ''Springfield'']))) = PStr ''Springfield''"
  by (simp add: first_present_def city_fields_def List.map_filter_def city_of_result_def
      resolve_city_def py_or_def dict_get_def truthy_def)

section \<open>Claims about the statistics\<close>

text \<open>
  Claim C10. For every loaded store with a city column, the \<^verbatim>\<open>city_distribution\<close> of
  \<^verbatim>\<open>get_stats\<close> has at most 10 entries: as many as there are distinct cities, up to 10.
  Its cities are distinct cities of the store, each with the number of its zones, and no
  city left out has more zones than a city listed.
\<close>

theorem city_distribution_at_most_ten:
  assumes "gdf self = Some g" and "''city'' \<in> set (gcolumns g)"
  shows "\<exists>st d. get_stats self = Some st \<and> city_distribution st = Some d \<and>
     length d \<le> 10 \<and> length d = min 10 (nunique (column_values g ''city'')) \<and>
     distinct (map fst d) \<and>
     (\<forall>p \<in> set d. fst p \<noteq> PNone \<and> fst p \<in> set (column_values g ''city'') \<and>
        snd p = count_list (column_values g ''city'') (fst p)) \<and>
     (\<forall>v \<in> set (column_values g ''city''). v \<noteq> PNone \<and> v \<notin> fst ` set d \<longrightarrow>
        (\<forall>p \<in> set d. count_list (column_values g ''city'') v \<le> snd p))"
proof -
  define xs where "xs = column_values g ''city''"
  define d where "d = take 10 (value_counts xs)"
  obtain st where st: "get_stats self = Some st" and cd: "city_distribution st = Some d"
    using assms by (simp add: get_stats_def d_def xs_def)
  have len: "length d = min 10 (nunique xs)"
    by (simp add: d_def length_value_counts min.commute)
  have dist: "distinct (map fst d)"
    using distinct_value_counts [of xs] by (simp add: d_def take_map [symmetric] distinct_take)
  have sub: "set d \<subseteq> set (value_counts xs)" by (simp add: d_def set_take_subset)
  have each: "\<forall>p \<in> set d. fst p \<noteq> PNone \<and> fst p \<in> set xs \<and> snd p = count_list xs (fst p)"
    using sub by (auto simp: set_value_counts)
  have rest: "\<forall>p \<in> set d. count_list xs v \<le> snd p"
    if v: "v \<in> set xs" "v \<noteq> PNone" "v \<notin> fst ` set d" for v
  proof
    fix p assume p: "p \<in> set d"
    have "(v, count_list xs v) \<in> set (value_counts xs)" using v by (auto simp: set_value_counts)
    then have "(v, count_list xs v) \<in> set (take 10 (value_counts xs)) \<union> set (drop 10 (value_counts xs))"
      by (simp flip: set_append)
    moreover have "(v, count_list xs v) \<notin> set d" using v(3) by force
    ultimately have "(v, count_list xs v) \<in> set (drop 10 (value_counts xs))"
      by (simp add: d_def)
    from take_before_drop [OF sorted_value_counts p [unfolded d_def] this]
    show "count_list xs v \<le> snd p" by simp
  qed
  show ?thesis using st cd len dist each rest unfolding xs_def by (intro exI [of _ st] exI [of _ d]) auto
qed

theorem city_distribution_at_most_ten_witness:
  "gdf cities_checker = Some cities_gdf \<and> ''city'' \<in> set (gcolumns cities_gdf) \<and>
   nunique (column_values cities_gdf ''city'') = 11 \<and>
   (\<exists>st d. get_stats cities_checker = Some st \<and> city_distribution st = Some d \<and>
      length d = 10 \<and> hd d = (PStr ''k'', 2))"
proof -
  have h1: "gdf cities_checker = Some cities_gdf" by (simp add: cities_checker_def)
  have h2: "''city'' \<in> set (gcolumns cities_gdf)" by (simp add: cities_gdf_def)
  from city_distribution_at_most_ten [OF h1 h2] obtain st d where
    s: "get_stats cities_checker = Some st" and d: "city_distribution st = Some d" and
    l: "length d = min 10 (nunique (column_values cities_gdf ''city''))"
    by blast
  from cities_top s d have "hd d = (PStr ''k'', 2)" by simp
  then show ?thesis using h1 h2 cities_nunique s d l by auto
qed

end
